theory Spec2Isabelle
  imports Main "HOL-Library.Sublist"
begin

section \<open>Values, exceptions and the outside world\<close>

text \<open>
  \<^verbatim>\<open>start.py\<close> is a sequential provisioning script. Every step talks to the outside
  world: it prints, reads a line from standard input, runs a \<^verbatim>\<open>gcloud\<close> command, posts
  an HTTP request, polls an operation, writes a file. The embedding keeps the program's
  own control flow (its branches, loops, \<^verbatim>\<open>try\<close> blocks and \<^verbatim>\<open>raise\<close> statements) and makes
  the world explicit: what the world answers is read from an environment record, and what
  the program does to the world is appended to a trace of events held in the state.

  JSON documents, as \<^verbatim>\<open>json.loads\<close> hands them to the program and \<^verbatim>\<open>json.dump\<close> takes
  them: an object is an association list looked up by key. Floating-point numbers are
  left out. Text is a list of characters with code points below 256.
\<close>

datatype json =
    JNull
  | JBool bool
  | JInt int
  | JStr string
  | JArr "json list"
  | JObj "(string \<times> json) list"

type_synonym json_object = "(string \<times> json) list"

text \<open>
  The exceptions a run can end with. \<open>Exception\<close> is the only one the script raises
  with a \<^verbatim>\<open>raise\<close> statement of its own (line 145); the others come from the interpreter
  (\<open>TypeError\<close>, \<open>KeyError\<close>, \<open>IndexError\<close>), from \<^verbatim>\<open>input\<close> at the end of standard input
  (\<open>EOFError\<close>) and from \<^verbatim>\<open>subprocess.run(..., check=True)\<close> on a non-zero exit status
  (\<open>CalledProcessError\<close>, with the command line).
\<close>

datatype exn =
    CalledProcessError "string list"
  | EOFError
  | IndexError
  | KeyError string
  | TypeError
  | Exception json

datatype 'a result = Return 'a | Raise exn

text \<open>What the program does to the world, one event per call, in program order.\<close>

datatype event =
    Print "json list"
  | Input string
  | Run "string list"
  | Popen string "string option"
  | Certificate string
  | GetAccessToken
  | HttpPost string "(string \<times> string) list"
  | FromServiceAccountFile string
  | BuildService string string
  | OperationGet json
  | Sleep nat
  | InitializeApp json_object
  | DbSet string json
  | WriteFile string json

text \<open>
  What the world answers. \<open>run_status argv\<close> says whether the command exits with status
  zero; \<open>popen_output cmd\<close> is the pair (standard output, standard error) of the shell
  command, already decoded; \<open>post_status uri\<close> and \<open>post_json uri\<close> are the status code and
  the parsed body of the answer to the POST (\<^verbatim>\<open>req.status_code\<close>, which the script never
  reads, and \<^verbatim>\<open>req.json()\<close>), and \<open>operation_get name k\<close> is the parsed answer to the
  \<open>k\<close>-th poll of the operation (counted from 0). Both APIs answer with a JSON object.
  Calls into the libraries are taken to succeed with these answers.
\<close>

record env =
  run_status :: "string list \<Rightarrow> bool"
  popen_output :: "string \<Rightarrow> string \<times> string"
  getcwd :: string
  access_token :: string
  post_status :: "string \<Rightarrow> nat"
  post_json :: "string \<Rightarrow> json_object"
  operation_get :: "json \<Rightarrow> nat \<Rightarrow> json_object"

text \<open>
  The state threaded through the program: the lines still to be read from standard
  input, the events so far (oldest first) and the files the program itself has written.
\<close>

record world =
  stdin :: "string list"
  trace :: "event list"
  files :: "string \<Rightarrow> json option"

definition emit :: "event \<Rightarrow> world \<Rightarrow> world" where
  "emit e w = w\<lparr>trace := trace w @ [e]\<rparr>"

definition print :: "json list \<Rightarrow> world \<Rightarrow> world" where
  "print args w = emit (Print args) w"

text \<open>\<^verbatim>\<open>input(prompt)\<close>: the next line of standard input, \<open>EOFError\<close> when there is none.\<close>

definition input :: "string \<Rightarrow> world \<Rightarrow> string result \<times> world" where
  "input prompt w =
     (case stdin w of
        [] \<Rightarrow> (Raise EOFError, emit (Input prompt) w)
      | l # ls \<Rightarrow> (Return l, emit (Input prompt) (w\<lparr>stdin := ls\<rparr>)))"

text \<open>\<^verbatim>\<open>subprocess.run(argv, check=True)\<close>.\<close>

definition run :: "env \<Rightarrow> string list \<Rightarrow> world \<Rightarrow> unit result \<times> world" where
  "run env argv w =
     (if run_status env argv then Return () else Raise (CalledProcessError argv),
      emit (Run argv) w)"

text \<open>\<^verbatim>\<open>subprocess.Popen(cmd, ..., shell=True).communicate()\<close>.\<close>

definition popen :: "env \<Rightarrow> string \<Rightarrow> string option \<Rightarrow> world \<Rightarrow> (string \<times> string) \<times> world" where
  "popen env cmd cwd w = (popen_output env cmd, emit (Popen cmd cwd) w)"

definition FIREBASE_CREDENTIALS_FILE_NAME :: string where
  "FIREBASE_CREDENTIALS_FILE_NAME = ''generated_firebase_credentials.json''"

definition SERVICE_ACCOUNT_NAME :: string where
  "SERVICE_ACCOUNT_NAME = ''firebase-bm-df-bot''"

section \<open>Configuration emission\<close>

text \<open>
  \<^verbatim>\<open>create_config\<close> (lines 179-188) builds the dictionary key by key and dumps it to
  \<^verbatim>\<open>../resources/config.json\<close>, opened with mode \<^verbatim>\<open>'w'\<close>: whatever the file held is
  replaced. The file is modelled by the document dumped into it.
\<close>

definition config_of :: "string \<Rightarrow> string \<Rightarrow> json_object" where
  "config_of project_id partner_key =
     [(''use_firebase_for_credentials'', JBool True),
      (''firebase_service_account'', JStr FIREBASE_CREDENTIALS_FILE_NAME),
      (''verification_token'', JStr partner_key),
      (''firebase_database_url'', JStr (''https://'' @ project_id @ ''.firebaseio.com''))]"

definition json_dump :: "json \<Rightarrow> string \<Rightarrow> world \<Rightarrow> world" where
  "json_dump doc path w = emit (WriteFile path doc) (w\<lparr>files := (files w)(path \<mapsto> doc)\<rparr>)"

definition create_config :: "string \<Rightarrow> string \<Rightarrow> world \<Rightarrow> unit result \<times> world" where
  "create_config project_id partner_key w =
     (let w1 = print [JStr ''Creating configuration file...''] w;
          config = config_of project_id partner_key
      in (Return (), json_dump (JObj config) ''../resources/config.json'' w1))"

text \<open>The file a step has left at a path, read back as a JSON object.\<close>

definition written_config :: "world \<Rightarrow> json_object option" where
  "written_config w =
     (case files w ''../resources/config.json'' of
        Some (JObj kvs) \<Rightarrow> Some kvs
      | _ \<Rightarrow> None)"

definition field :: "string \<Rightarrow> json_object option \<Rightarrow> json option" where
  "field k doc = (case doc of None \<Rightarrow> None | Some kvs \<Rightarrow> map_of kvs k)"

section \<open>Sequencing and exception handling\<close>

text \<open>
  A statement followed by the rest of the block: the rest runs on the state the statement
  left, unless the statement raised.
\<close>

definition and_then ::
  "'a result \<times> world \<Rightarrow> ('a \<Rightarrow> world \<Rightarrow> 'b result \<times> world) \<Rightarrow> 'b result \<times> world" where
  "and_then rw f = (case rw of (Return x, w) \<Rightarrow> f x w | (Raise e, w) \<Rightarrow> (Raise e, w))"

text \<open>
  \<^verbatim>\<open>try: body  except subprocess.CalledProcessError: handler\<close>. Only this class is caught;
  the handlers of the script print a line and fall through.
\<close>

definition except_CalledProcessError ::
  "unit result \<times> world \<Rightarrow> (world \<Rightarrow> world) \<Rightarrow> unit result \<times> world" where
  "except_CalledProcessError rw handler =
     (case rw of
        (Raise (CalledProcessError argv), w) \<Rightarrow> (Return (), handler w)
      | _ \<Rightarrow> rw)"

text \<open>
  \<^verbatim>\<open>x = initial; while continue(x): x = input(prompt)\<close>, the shape of the three prompt
  loops of the script. Each round reads one line, so the loop ends at the latest with
  \<open>EOFError\<close> when standard input is used up.
\<close>

function input_while ::
  "(string \<Rightarrow> bool) \<Rightarrow> string \<Rightarrow> string \<Rightarrow> world \<Rightarrow> string result \<times> world" where
  "input_while continue prompt x w =
     (if continue x then
        (case input prompt w of
           (Raise e, w') \<Rightarrow> (Raise e, w')
         | (Return l, w') \<Rightarrow> input_while continue prompt l w')
      else (Return x, w))"
  by pat_completeness auto
termination
  by (relation "measure (\<lambda>(c, p, x, w). length (stdin w))")
     (auto simp: input_def emit_def split: list.splits)

section \<open>Strings\<close>

definition newline :: char where
  "newline = CHR 0x0A"

text \<open>\<^verbatim>\<open>s.split(sep)\<close> for a separator of one character: never an empty list.\<close>

fun split_on :: "char \<Rightarrow> string \<Rightarrow> string list" where
  "split_on sep [] = [[]]"
| "split_on sep (c # cs) =
     (if c = sep then [] # split_on sep cs
      else (case split_on sep cs of
              [] \<Rightarrow> [[c]]
            | piece # pieces \<Rightarrow> (c # piece) # pieces))"

text \<open>
  \<^verbatim>\<open>s.split()\<close>: the maximal runs of characters that are not whitespace. Whitespace is
  what \<^verbatim>\<open>str.isspace\<close> holds for; among the characters below 256 these are tab, line feed,
  vertical tab, form feed, carriage return, the four separators 0x1C-0x1F, the space,
  the next-line control 0x85 and the no-break space 0xA0.
\<close>

definition isspace :: "char \<Rightarrow> bool" where
  "isspace c \<longleftrightarrow>
     c \<in> set [CHR 0x09, CHR 0x0A, CHR 0x0B, CHR 0x0C, CHR 0x0D,
              CHR 0x1C, CHR 0x1D, CHR 0x1E, CHR 0x1F, CHR 0x20, CHR 0x85, CHR 0xA0]"

fun tokens :: "string \<Rightarrow> string \<Rightarrow> string list" where
  "tokens cur [] = (if cur = [] then [] else [cur])"
| "tokens cur (c # cs) =
     (if isspace c then (if cur = [] then tokens [] cs else cur # tokens [] cs)
      else tokens (cur @ [c]) cs)"

definition split_ws :: "string \<Rightarrow> string list" where
  "split_ws s = tokens [] s"

text \<open>\<^verbatim>\<open>sep.join(xs)\<close>.\<close>

fun join :: "string \<Rightarrow> string list \<Rightarrow> string" where
  "join sep [] = []"
| "join sep [x] = x"
| "join sep (x # y # ys) = x @ sep @ join sep (y # ys)"

section \<open>API enablement\<close>




section \<open>Region selection\<close>

text \<open>
  \<^verbatim>\<open>set_region\<close> (lines 59-83). \<^verbatim>\<open>if err:\<close> tests whether the describe command wrote
  anything to standard error. On that branch the region table is cut into lines, the
  header line and the piece after the last line feed are dropped (\<^verbatim>\<open>[1:-1]\<close>), and the
  first word of every remaining line is taken; \<^verbatim>\<open>x.split()[0]\<close> raises \<open>IndexError\<close> on
  a line without a word.
\<close>

fun first_words :: "string list \<Rightarrow> exn + string list" where
  "first_words [] = Inr []"
| "first_words (x # xs) =
     (case split_ws x of
        [] \<Rightarrow> Inl IndexError
      | word # _ \<Rightarrow> (case first_words xs of Inl e \<Rightarrow> Inl e | Inr ws \<Rightarrow> Inr (word # ws)))"

definition regions_of :: "string \<Rightarrow> exn + string list" where
  "regions_of out = first_words (butlast (tl (split_on newline out)))"

definition app_create :: "string \<Rightarrow> string list" where
  "app_create deploy_region = [''gcloud'', ''app'', ''create'', ''--region='' @ deploy_region]"

definition set_region :: "env \<Rightarrow> world \<Rightarrow> unit result \<times> world" where
  "set_region env w =
     (case popen env ''gcloud app describe'' None w of
        ((out, err), w1) \<Rightarrow>
          if err \<noteq> [] then
            (case popen env ''gcloud app regions list'' None w1 of
               ((out, err), w2) \<Rightarrow>
                 (case regions_of out of
                    Inl e \<Rightarrow> (Raise e, w2)
                  | Inr regions_list \<Rightarrow>
                      and_then
                        (input_while (\<lambda>deploy_region. deploy_region \<notin> set regions_list)
                           ''Choose a region for the App Engine project: '' []
                           (print [JStr (join [newline] regions_list)]
                              (print [JStr (newline # ''Regions:'')] w2)))
                        (\<lambda>deploy_region. run env (app_create deploy_region))))
          else (Return (), w1))"

section \<open>Service account and key\<close>

text \<open>
  \<^verbatim>\<open>get_service_key\<close> (lines 86-118) has two \<^verbatim>\<open>try\<close> blocks. The first holds two
  commands, account creation and then key creation; the second holds the role binding.
\<close>

definition service_account_email :: "string \<Rightarrow> string" where
  "service_account_email project_id =
     SERVICE_ACCOUNT_NAME @ ''@'' @ project_id @ ''.iam.gserviceaccount.com''"

definition create_account :: "string list" where
  "create_account =
     [''gcloud'', ''iam'', ''service-accounts'', ''create'', SERVICE_ACCOUNT_NAME,
      ''--description='' @ [CHR 0x22] @ ''Created by bot-in-a-box'' @ [CHR 0x22],
      ''--display-name='' @ [CHR 0x22] @ ''Firebase Service Account'' @ [CHR 0x22]]"

definition create_key :: "string \<Rightarrow> string list" where
  "create_key project_id =
     [''gcloud'', ''iam'', ''service-accounts'', ''keys'', ''create'',
      ''../resources/'' @ FIREBASE_CREDENTIALS_FILE_NAME, ''--iam-account'',
      service_account_email project_id]"

definition add_editor_role :: "string \<Rightarrow> string list" where
  "add_editor_role project_id =
     [''gcloud'', ''projects'', ''add-iam-policy-binding'', project_id,
      ''--member=serviceAccount:'' @ service_account_email project_id,
      ''--role=roles/editor'']"

definition get_service_key :: "env \<Rightarrow> string \<Rightarrow> world \<Rightarrow> unit result \<times> world" where
  "get_service_key env project_id w =
     and_then
       (except_CalledProcessError
          (and_then (run env create_account
                       (print [JStr ''Creating and saving service account...''] w))
             (\<lambda>_. run env (create_key project_id)))
          (print [JStr ''Service account already exists or unable to create service account. Continuing...'']))
       (\<lambda>_ w'. except_CalledProcessError
          (run env (add_editor_role project_id) w')
          (print [JStr ''Failed to add editor roles to service account. Continuing...'']))"

section \<open>Database initialization\<close>

text \<open>
  Truth of a value in a condition, and subscription \<^verbatim>\<open>v[key]\<close> with a string key: a
  dictionary without the key raises \<open>KeyError\<close>, every other value \<open>TypeError\<close>.
\<close>

fun truthy :: "json \<Rightarrow> bool" where
  "truthy JNull = False"
| "truthy (JBool b) = b"
| "truthy (JInt n) = (n \<noteq> 0)"
| "truthy (JStr s) = (s \<noteq> [])"
| "truthy (JArr xs) = (xs \<noteq> [])"
| "truthy (JObj kvs) = (kvs \<noteq> [])"

fun getitem :: "json \<Rightarrow> string \<Rightarrow> exn + json" where
  "getitem (JObj kvs) key = (case map_of kvs key of None \<Rightarrow> Inl (KeyError key) | Some v \<Rightarrow> Inr v)"
| "getitem _ key = Inl TypeError"

text \<open>
  \<^verbatim>\<open>get_access_token\<close> (lines 121-125) loads the certificate from the credentials file
  and asks for a token.
\<close>

definition credentials_path :: string where
  "credentials_path = ''../resources/'' @ FIREBASE_CREDENTIALS_FILE_NAME"

definition get_access_token :: "env \<Rightarrow> world \<Rightarrow> string \<times> world" where
  "get_access_token env w =
     (access_token env, emit GetAccessToken (emit (Certificate credentials_path) w))"

text \<open>
  The loop of \<^verbatim>\<open>wait_for_operation\<close> (lines 142-149); \<open>k\<close> counts the polls already
  made. \<^verbatim>\<open>'error' in result\<close> is tested first and raises \<^verbatim>\<open>Exception(result['error'])\<close>;
  then \<^verbatim>\<open>'done' in result and result['done']\<close> returns; otherwise the loop sleeps one
  second and polls again. Nothing bounds the number of rounds, so the loop is a partial
  function: \<open>None\<close> is the run that never comes back.
\<close>

partial_function (option) poll_loop ::
  "env \<Rightarrow> json \<Rightarrow> nat \<Rightarrow> world \<Rightarrow> (unit result \<times> world) option" where
  "poll_loop env name k w =
     (let w1 = emit (OperationGet name) w;
          result = operation_get env name k
      in case map_of result ''error'' of
           Some err \<Rightarrow> Some (Raise (Exception err), w1)
         | None \<Rightarrow>
             if (case map_of result ''done'' of None \<Rightarrow> False | Some d \<Rightarrow> truthy d)
             then Some (Return (), print [JStr ''Add Firebase operation completed.''] w1)
             else poll_loop env name (Suc k) (emit (Sleep 1) w1))"

declare poll_loop.simps [code]

definition wait_for_operation :: "env \<Rightarrow> json \<Rightarrow> world \<Rightarrow> (unit result \<times> world) option" where
  "wait_for_operation env operation_name w =
     poll_loop env operation_name 0
       (print [JStr ''Waiting for Firebase add operation to complete...'']
          (emit (BuildService ''firebase'' ''v1beta1'')
             (emit (FromServiceAccountFile credentials_path) w)))"

text \<open>
  The first condition of \<^verbatim>\<open>initialize_firebase\<close> (line 163),
  \<^verbatim>\<open>'error' in request and request['error']['code'] == 409\<close>: it reads the body of the
  answer, never the status line.
\<close>

definition error_code_is_409 :: "json_object \<Rightarrow> exn + bool" where
  "error_code_is_409 request =
     (case map_of request ''error'' of
        None \<Rightarrow> Inr False
      | Some err \<Rightarrow>
          (case getitem err ''code'' of
             Inl e \<Rightarrow> Inl e
           | Inr code \<Rightarrow> Inr (code = JInt 409)))"

definition add_firebase_uri :: "string \<Rightarrow> string" where
  "add_firebase_uri project_id =
     ''https://firebase.googleapis.com/v1beta1/projects/'' @ project_id @ '':addFirebase''"

definition database_url :: "string \<Rightarrow> string" where
  "database_url project_id = ''https://'' @ project_id @ ''.firebaseio.com''"

text \<open>The last four lines of \<^verbatim>\<open>initialize_firebase\<close> (171-176): the sentinel record.\<close>

definition write_sentinel :: "string \<Rightarrow> world \<Rightarrow> world" where
  "write_sentinel project_id w =
     emit (DbSet ''setup/'' (JObj [(''completed'', JBool True)]))
       (emit (InitializeApp [(''databaseURL'', JStr (database_url project_id))])
          (emit (Certificate credentials_path) w))"

definition initialize_firebase :: "env \<Rightarrow> string \<Rightarrow> world \<Rightarrow> (unit result \<times> world) option" where
  "initialize_firebase env project_id w =
     (case get_access_token env (print [JStr ''Initializing Firebase...''] w) of
        (token, w1) \<Rightarrow>
          (let uri = add_firebase_uri project_id;
               headers = [(''Authorization'', ''Bearer '' @ token)];
               w2 = emit (HttpPost uri headers) w1;
               request = post_json env uri
           in case error_code_is_409 request of
                Inl e \<Rightarrow> Some (Raise e, w2)
              | Inr True \<Rightarrow> Some (Return (), print [JStr ''Firebase entity already exists''] w2)
              | Inr False \<Rightarrow>
                  (case map_of request ''name'' of
                     None \<Rightarrow> Some (Return (), w2)
                   | Some name \<Rightarrow>
                       (case wait_for_operation env name
                               (print [JStr ''Operation name:'', name] w2) of
                          None \<Rightarrow> None
                        | Some (Raise e, w3) \<Rightarrow> Some (Raise e, w3)
                        | Some (Return _, w3) \<Rightarrow>
                            Some (Return (), write_sentinel project_id w3)))))"

section \<open>Deployment\<close>

text \<open>
  \<^verbatim>\<open>re.search(r'Deployed service \[default\] to \[(.+)\]', deploy_log)\<close>. The pattern is
  a literal text, a group of one or more characters other than a line feed, taken
  greedily, and a closing bracket. At a given start the literal must be read first; the
  group then runs to the end of the line and gives characters back until a closing
  bracket follows it, so it ends just before the last closing bracket of the line, and
  has to keep one character at least. \<^verbatim>\<open>search\<close> tries the starts from left to right and
  stops at the first that matches; its value here is the text of group 1.
\<close>

definition url_prefix :: string where
  "url_prefix = ''Deployed service [default] to [''"

definition greedy_group :: "string \<Rightarrow> string option" where
  "greedy_group line =
     (case line of
        [] \<Rightarrow> None
      | c # cs \<Rightarrow>
          if CHR '']'' \<in> set cs
          then Some (c # rev (tl (dropWhile (\<lambda>x. x \<noteq> CHR '']'') (rev cs))))
          else None)"

definition match_at :: "string \<Rightarrow> string option" where
  "match_at s =
     (if prefix url_prefix s
      then greedy_group (takeWhile (\<lambda>x. x \<noteq> newline) (drop (length url_prefix) s))
      else None)"

fun re_search :: "string \<Rightarrow> string option" where
  "re_search [] = match_at []"
| "re_search (c # cs) =
     (case match_at (c # cs) of
        Some g \<Rightarrow> Some g
      | None \<Rightarrow> re_search cs)"

text \<open>
  \<^verbatim>\<open>deploy\<close> (lines 191-206) reads the log from standard error, prints it and returns
  \<^verbatim>\<open>deploy_url[1]\<close>. When the search found nothing \<^verbatim>\<open>deploy_url\<close> is \<^verbatim>\<open>None\<close>, and
  subscripting it raises \<open>TypeError\<close>.
\<close>

definition deploy :: "env \<Rightarrow> world \<Rightarrow> string result \<times> world" where
  "deploy env w =
     (case popen env ''gcloud app deploy --quiet'' (Some (getcwd env @ ''/../''))
             (print [JStr ''Deploying. This may take several minutes...''] w) of
        ((out, err), w1) \<Rightarrow>
          (let deploy_log = err;
               w2 = print [JStr deploy_log] w1
           in case re_search deploy_log of
                None \<Rightarrow> (Raise TypeError, w2)
              | Some url \<Rightarrow> (Return url, w2)))"

section \<open>The entry point\<close>




text \<open>The world at the start of a run: nothing done yet, nothing written.\<close>

definition initial_world :: "string list \<Rightarrow> world" where
  "initial_world lines = \<lparr>stdin = lines, trace = [], files = (\<lambda>_. None)\<rparr>"

section \<open>Observing a run\<close>

text \<open>
  What a run that comes back ended with, and the events it added to the trace it
  started from. Both are \<open>None\<close> for a run that never comes back.
\<close>

definition outcome :: "('a result \<times> world) option \<Rightarrow> 'a result option" where
  "outcome m = map_option fst m"

definition events_since :: "world \<Rightarrow> ('a result \<times> world) option \<Rightarrow> event list option" where
  "events_since w m = map_option (\<lambda>rw. drop (length (trace w)) (trace (snd rw))) m"

fun is_poll :: "event \<Rightarrow> bool" where
  "is_poll (OperationGet name) = True"
| "is_poll e = False"

fun is_sleep :: "event \<Rightarrow> bool" where
  "is_sleep (Sleep seconds) = True"
| "is_sleep e = False"

fun is_sentinel_write :: "event \<Rightarrow> bool" where
  "is_sentinel_write (DbSet path doc) = True"
| "is_sentinel_write e = False"

text \<open>
  An answer to a poll reports completion when it has a true value under \<open>done\<close>; it
  leaves the operation pending when it has no \<open>error\<close> key and does not report
  completion.
\<close>

definition reports_done :: "json_object \<Rightarrow> bool" where
  "reports_done result \<longleftrightarrow>
     (case map_of result ''done'' of None \<Rightarrow> False | Some d \<Rightarrow> truthy d)"

definition pending :: "json_object \<Rightarrow> bool" where
  "pending result \<longleftrightarrow> map_of result ''error'' = None \<and> \<not> reports_done result"

text \<open>\<open>n\<close> rounds of the loop that end in a sleep: a poll, then one second of sleep.\<close>

fun rounds :: "json \<Rightarrow> nat \<Rightarrow> event list" where
  "rounds name 0 = []"
| "rounds name (Suc n) = OperationGet name # Sleep 1 # rounds name n"

text \<open>
  A world that answers the POST with status 200 and body \<open>request\<close>, and the \<open>k\<close>-th poll
  with \<open>polls k\<close>; every command succeeds silently.
\<close>

definition mock_env :: "json_object \<Rightarrow> (nat \<Rightarrow> json_object) \<Rightarrow> env" where
  "mock_env request polls =
     \<lparr>run_status = (\<lambda>argv. True), popen_output = (\<lambda>cmd. ([], [])),
      getcwd = ''/srv/biab'', access_token = ''token'',
      post_status = (\<lambda>uri. 200), post_json = (\<lambda>uri. request),
      operation_get = (\<lambda>name. polls)\<rparr>"

text \<open>
  Three operations for concrete runs: one that is pending twice and then reports
  completion, one that reports \<open>done: false\<close> for ever, and one whose first answer carries
  both \<open>done: true\<close> and an \<open>error\<close>.
\<close>

definition slow_operation :: "nat \<Rightarrow> json_object" where
  "slow_operation k = (if k < 2 then [(''name'', JStr ''operations/1'')]
                       else [(''name'', JStr ''operations/1''), (''done'', JBool True)])"

definition stuck_operation :: "nat \<Rightarrow> json_object" where
  "stuck_operation k = [(''name'', JStr ''operations/1''), (''done'', JBool False)]"

definition failed_operation :: "nat \<Rightarrow> json_object" where
  "failed_operation k = [(''done'', JBool True), (''error'', JObj [(''code'', JInt 7)])]"

text \<open>
  Three answers to the POST: the project already has the database, the caller may not add
  it, the operation has been started; an operation whose second answer is an error, and
  one that is complete at the first poll; and a world that answers the POST with status
  409 and a body that names a started operation.
\<close>

definition conflict_answer :: json_object where
  "conflict_answer = [(''error'', JObj [(''code'', JInt 409), (''status'', JStr ''ALREADY_EXISTS'')])]"

definition denied_answer :: json_object where
  "denied_answer = [(''error'', JObj [(''code'', JInt 403), (''status'', JStr ''PERMISSION_DENIED'')])]"

definition accepted_answer :: json_object where
  "accepted_answer = [(''name'', JStr ''operations/1'')]"

definition late_failure :: "nat \<Rightarrow> json_object" where
  "late_failure k = (if k < 1 then [(''name'', JStr ''operations/1'')]
                     else [(''name'', JStr ''operations/1''), (''error'', JObj [(''code'', JInt 7)])])"

definition done_operation :: "nat \<Rightarrow> json_object" where
  "done_operation k = [(''name'', JStr ''operations/1''), (''done'', JBool True)]"

definition conflict_status_env :: env where
  "conflict_status_env = (mock_env accepted_answer done_operation)\<lparr>post_status := (\<lambda>uri. 409)\<rparr>"

text \<open>
  The language of the pattern, independently of the search: the text
  \<^verbatim>\<open>Deployed service [default] to [\<close>, then one character or more on the same line, then a
  closing bracket.
\<close>

definition pattern_occurs :: "string \<Rightarrow> bool" where
  "pattern_occurs log \<longleftrightarrow>
     (\<exists>pre url rest. log = pre @ url_prefix @ url @ '']'' @ rest
                     \<and> url \<noteq> [] \<and> newline \<notin> set url)"

text \<open>
  A world whose every shell command writes \<open>log\<close> to standard error, and five deployment
  logs: a successful one, one whose first line has the opening text and no closing
  bracket, one with more brackets after the URL on its line, a failed one, and one with
  nothing between the brackets.
\<close>

definition deploy_env :: "string \<Rightarrow> env" where
  "deploy_env log =
     \<lparr>run_status = (\<lambda>argv. True), popen_output = (\<lambda>cmd. ([], log)),
      getcwd = ''/srv/biab'', access_token = ''token'',
      post_status = (\<lambda>uri. 200), post_json = (\<lambda>uri. []),
      operation_get = (\<lambda>name k. [])\<rparr>"

definition usual_log :: string where
  "usual_log =
     (''Updating service [default]...done.'' @ [newline])
     @ url_prefix @ ''https://example.appspot.com'' @ '']''
     @ (newline # newline # ''You can stream logs [default] from the command line'')"

definition retried_log :: string where
  "retried_log =
     (url_prefix @ ''pending'' @ [newline])
     @ url_prefix @ ''https://example.appspot.com'' @ '']'' @ [newline]"

definition trailing_log :: string where
  "trailing_log = ''Deployed service [default] to [https://example.appspot.com]'' @ '' [ok]''"

definition failed_log :: string where
  "failed_log = ''ERROR: (gcloud.app.deploy) Error Response: [9] Cloud build failed.''"

definition empty_url_log :: string where
  "empty_url_log = ''Deployed service [default] to []''"

text \<open>
  The command lines a run has issued with \<^verbatim>\<open>subprocess.run\<close>, in order; and a world in
  which the service account exists already, so that creating it fails and every other
  command succeeds.
\<close>

fun command_of :: "event \<Rightarrow> string list option" where
  "command_of (Run argv) = Some argv"
| "command_of e = None"

definition commands :: "event list \<Rightarrow> string list list" where
  "commands es = List.map_filter command_of es"

definition existing_account_env :: env where
  "existing_account_env =
     \<lparr>run_status = (\<lambda>argv. argv \<noteq> create_account), popen_output = (\<lambda>cmd. ([], [])),
      getcwd = ''/srv/biab'', access_token = ''token'',
      post_status = (\<lambda>uri. 200), post_json = (\<lambda>uri. []),
      operation_get = (\<lambda>name k. [])\<rparr>"

text \<open>
  The commands a step has issued, given the world it started from; a world in which the
  describe command writes \<open>describe_err\<close> to standard error and every other shell command
  writes \<open>listing\<close> to standard output; a region table as \<^verbatim>\<open>gcloud\<close> prints it, the message
  of a project without an application, and a world in which the listing prints nothing.
\<close>

definition issued :: "world \<Rightarrow> 'a result \<times> world \<Rightarrow> string list list" where
  "issued w rw = commands (drop (length (trace w)) (trace (snd rw)))"

definition region_env :: "string \<Rightarrow> string \<Rightarrow> env" where
  "region_env describe_err listing =
     \<lparr>run_status = (\<lambda>argv. True),
      popen_output = (\<lambda>cmd. if cmd = ''gcloud app describe'' then ([], describe_err)
                            else (listing, [])),
      getcwd = ''/srv/biab'', access_token = ''token'',
      post_status = (\<lambda>uri. 200), post_json = (\<lambda>uri. []),
      operation_get = (\<lambda>name k. [])\<rparr>"

definition region_table :: string where
  "region_table =
     ''REGION        SUPPORTS STANDARD  SUPPORTS FLEXIBLE'' @ [newline]
     @ ''us-central    YES                YES'' @ [newline]
     @ ''europe-west   YES                YES'' @ [newline]"

definition no_app_message :: string where
  "no_app_message = ''ERROR: (gcloud.app.describe) The current project does not contain an App Engine application.''"

definition no_table_env :: env where
  "no_table_env = region_env no_app_message []"

text \<open>
  The steps of a run of \<^verbatim>\<open>main\<close>: the two prompt loops, the setting of the active project
  and the six functions it calls.
\<close>

datatype step =
    ProjectIdPrompt
  | PartnerKeyPrompt
  | ProjectSetting
  | RegionSelection
  | ApiEnablement
  | ServiceAccount
  | DatabaseInitialization
  | ConfigurationEmission
  | Deployment

text \<open>
  The step an event belongs to, read off the place of the source that produces it. A
  command line is told by its first three words: \<^verbatim>\<open>gcloud config set\<close> is run by \<^verbatim>\<open>main\<close>
  (line 221), \<^verbatim>\<open>gcloud app create\<close> by \<^verbatim>\<open>set_region\<close> (line 82),
  \<^verbatim>\<open>gcloud services enable\<close> by \<^verbatim>\<open>enable_apis\<close> (line 56), \<^verbatim>\<open>gcloud iam service-accounts\<close>
  and \<^verbatim>\<open>gcloud projects add-iam-policy-binding\<close> by \<^verbatim>\<open>get_service_key\<close> (lines 93-116).
  A prompt is told by its text and a shell command by its line. The certificate, the
  token, the POST, the polling and the database calls are all made by
  \<^verbatim>\<open>initialize_firebase\<close> and the functions it calls; the only file written is the
  configuration. Progress messages are not attributed to a step.
\<close>

definition command_step :: "string list \<Rightarrow> step option" where
  "command_step argv =
     (if take 3 argv = [''gcloud'', ''config'', ''set''] then Some ProjectSetting
      else if take 3 argv = [''gcloud'', ''app'', ''create''] then Some RegionSelection
      else if take 3 argv = [''gcloud'', ''services'', ''enable''] then Some ApiEnablement
      else if take 3 argv = [''gcloud'', ''iam'', ''service-accounts''] then Some ServiceAccount
      else if take 3 argv = [''gcloud'', ''projects'', ''add-iam-policy-binding'']
      then Some ServiceAccount
      else None)"

fun step_of :: "event \<Rightarrow> step option" where
  "step_of (Print args) = None"
| "step_of (Input prompt) =
     (if prompt = ''Google Cloud Project ID (not necessarily project name): ''
      then Some ProjectIdPrompt
      else if prompt = ''Partner key from Google: '' then Some PartnerKeyPrompt
      else if prompt = ''Choose a region for the App Engine project: ''
      then Some RegionSelection
      else None)"
| "step_of (Run argv) = command_step argv"
| "step_of (Popen cmd cwd) =
     (if cmd = ''gcloud app describe'' then Some RegionSelection
      else if cmd = ''gcloud app regions list'' then Some RegionSelection
      else if cmd = ''gcloud app deploy --quiet'' then Some Deployment
      else None)"
| "step_of (Certificate path) = Some DatabaseInitialization"
| "step_of GetAccessToken = Some DatabaseInitialization"
| "step_of (HttpPost uri headers) = Some DatabaseInitialization"
| "step_of (FromServiceAccountFile path) = Some DatabaseInitialization"
| "step_of (BuildService name version) = Some DatabaseInitialization"
| "step_of (OperationGet name) = Some DatabaseInitialization"
| "step_of (Sleep seconds) = Some DatabaseInitialization"
| "step_of (InitializeApp options) = Some DatabaseInitialization"
| "step_of (DbSet path doc) = Some DatabaseInitialization"
| "step_of (WriteFile path doc) = Some ConfigurationEmission"

text \<open>
  The steps of a list of events in the order in which they start, each named once for
  every uninterrupted stretch of its events; and the order in which \<^verbatim>\<open>main\<close> (lines
  212-228) has them.
\<close>

definition steps :: "event list \<Rightarrow> step list" where
  "steps es = remdups_adj (List.map_filter step_of es)"


text \<open>
  A piece of the script does the steps \<open>ss\<close> from the world \<open>w\<close> when every run of it that
  comes back has only added events to the trace, the steps of these events being \<open>ss\<close>
  when it returned and an initial segment of \<open>ss\<close> when it raised.
\<close>

definition does :: "step list \<Rightarrow> world \<Rightarrow> ('a result \<times> world) option \<Rightarrow> bool" where
  "does ss w m \<longleftrightarrow>
     (case m of
        None \<Rightarrow> True
      | Some (r, w') \<Rightarrow>
          (\<exists>es. trace w' = trace w @ es
              \<and> (case r of Return x \<Rightarrow> steps es = ss | Raise e \<Rightarrow> prefix (steps es) ss)))"



section \<open>Theorems\<close>

subsection \<open>The trace and the polling loop\<close>

lemma trace_emit [simp]: "trace (emit e w) = trace w @ [e]"
  by (simp add: emit_def)

lemma trace_print [simp]: "trace (print args w) = trace w @ [Print args]"
  by (simp add: print_def)

lemma poll_loop_pending:
  "pending (operation_get env name k) \<Longrightarrow>
   poll_loop env name k w =
   poll_loop env name (Suc k) (emit (Sleep 1) (emit (OperationGet name) w))"
  by (subst poll_loop.simps)
     (simp add: pending_def reports_done_def Let_def split: option.splits)

lemma poll_loop_done:
  "map_of (operation_get env name k) ''error'' = None \<Longrightarrow>
   reports_done (operation_get env name k) \<Longrightarrow>
   poll_loop env name k w =
   Some (Return (), print [JStr ''Add Firebase operation completed.'']
                      (emit (OperationGet name) w))"
  by (subst poll_loop.simps) (simp add: reports_done_def Let_def split: option.splits)

lemma poll_loop_error:
  "map_of (operation_get env name k) ''error'' = Some err \<Longrightarrow>
   poll_loop env name k w = Some (Raise (Exception err), emit (OperationGet name) w)"
  by (subst poll_loop.simps) (simp add: Let_def)

lemma poll_loop_skip:
  "(\<forall>j<n. pending (operation_get env name (k + j))) \<Longrightarrow>
   \<exists>w'. poll_loop env name k w = poll_loop env name (k + n) w'
      \<and> trace w' = trace w @ rounds name n"
proof (induction n arbitrary: k w)
  case 0
  show ?case by (rule exI[of _ w]) simp
next
  case (Suc n)
  have first: "pending (operation_get env name k)"
    using Suc.prems by (metis add.right_neutral zero_less_Suc)
  have "\<forall>j<n. pending (operation_get env name (Suc k + j))"
    using Suc.prems by (metis Suc_less_eq add_Suc_shift)
  from Suc.IH[OF this, of "emit (Sleep 1) (emit (OperationGet name) w)"]
  obtain w' where
    "poll_loop env name (Suc k) (emit (Sleep 1) (emit (OperationGet name) w))
       = poll_loop env name (Suc k + n) w'"
    and "trace w' = trace (emit (Sleep 1) (emit (OperationGet name) w)) @ rounds name n"
    by auto
  then show ?case using poll_loop_pending[OF first, of w] by auto
qed

lemma poll_loop_returns_not_all_pending:
  "poll_loop env name k w = Some y \<Longrightarrow> \<not> (\<forall>j. pending (operation_get env name j))"
proof (erule poll_loop.raw_induct
    [where P = "\<lambda>env name k w y. \<not> (\<forall>j. pending (operation_get env name j))", rotated])
  fix f env name k w y
  assume ih: "\<And>env name k w y. f env name k w = Some y \<Longrightarrow>
                \<not> (\<forall>j. pending (operation_get env name j))"
    and st: "(let w1 = emit (OperationGet name) w; result = operation_get env name k
              in case map_of result ''error'' of
                   None \<Rightarrow>
                     if (case map_of result ''done'' of None \<Rightarrow> False | Some d \<Rightarrow> truthy d)
                     then Some (Return (), print [JStr ''Add Firebase operation completed.''] w1)
                     else f env name (Suc k) (emit (Sleep 1) w1)
                 | Some err \<Rightarrow> Some (Raise (Exception err), w1)) = Some y"
  show "\<not> (\<forall>j. pending (operation_get env name j))"
  proof
    assume every: "\<forall>j. pending (operation_get env name j)"
    then have "pending (operation_get env name k)" by simp
    with st have "f env name (Suc k) (emit (Sleep 1) (emit (OperationGet name) w)) = Some y"
      by (simp add: pending_def reports_done_def Let_def split: option.splits)
    from ih[OF this] every show False by simp
  qed
qed

lemma poll_loop_forever:
  assumes "\<forall>j. pending (operation_get env name j)"
  shows "poll_loop env name k w = None"
  using poll_loop_returns_not_all_pending[of env name k w] assms
  by (cases "poll_loop env name k w") auto

lemma filter_rounds [simp]:
  "filter is_poll (rounds name n) = replicate n (OperationGet name)"
  "filter is_sleep (rounds name n) = replicate n (Sleep 1)"
  "filter is_sentinel_write (rounds name n) = []"
  by (induction n) simp_all

lemma wait_for_operation_done:
  assumes "\<forall>k<n. pending (operation_get env name k)"
      and "map_of (operation_get env name n) ''error'' = None"
      and "reports_done (operation_get env name n)"
  shows "\<exists>w'. wait_for_operation env name w = Some (Return (), w')
           \<and> trace w' = trace w
               @ [FromServiceAccountFile credentials_path, BuildService ''firebase'' ''v1beta1'',
                  Print [JStr ''Waiting for Firebase add operation to complete...'']]
               @ rounds name n
               @ [OperationGet name, Print [JStr ''Add Firebase operation completed.'']]"
proof -
  let ?w0 = "print [JStr ''Waiting for Firebase add operation to complete...'']
          (emit (BuildService ''firebase'' ''v1beta1'')
             (emit (FromServiceAccountFile credentials_path) w))"
  from assms(1) have "\<forall>j<n. pending (operation_get env name (0 + j))" by simp
  from poll_loop_skip[OF this, of ?w0] obtain w1 where
    w1: "poll_loop env name 0 ?w0 = poll_loop env name n w1" "trace w1 = trace ?w0 @ rounds name n"
    by auto
  show ?thesis
    unfolding wait_for_operation_def w1(1) poll_loop_done[OF assms(2,3)]
    using w1(2) by simp
qed

lemma wait_for_operation_error:
  assumes "\<forall>k<n. pending (operation_get env name k)"
      and "map_of (operation_get env name n) ''error'' = Some err"
  shows "\<exists>w'. wait_for_operation env name w = Some (Raise (Exception err), w')
           \<and> trace w' = trace w
               @ [FromServiceAccountFile credentials_path, BuildService ''firebase'' ''v1beta1'',
                  Print [JStr ''Waiting for Firebase add operation to complete...'']]
               @ rounds name n
               @ [OperationGet name]"
proof -
  let ?w0 = "print [JStr ''Waiting for Firebase add operation to complete...'']
          (emit (BuildService ''firebase'' ''v1beta1'')
             (emit (FromServiceAccountFile credentials_path) w))"
  from assms(1) have "\<forall>j<n. pending (operation_get env name (0 + j))" by simp
  from poll_loop_skip[OF this, of ?w0] obtain w1 where
    w1: "poll_loop env name 0 ?w0 = poll_loop env name n w1" "trace w1 = trace ?w0 @ rounds name n"
    by auto
  show ?thesis
    unfolding wait_for_operation_def w1(1) poll_loop_error[OF assms(2)]
    using w1(2) by simp
qed

lemma events_since_Some [simp]:
  "trace w' = trace w @ es \<Longrightarrow> events_since w (Some (r, w')) = Some es"
  by (simp add: events_since_def)

lemma outcome_Some [simp]: "outcome (Some (r, w')) = Some r"
  by (simp add: outcome_def)

lemma initialize_firebase_polling:
  assumes "error_code_is_409 (post_json env (add_firebase_uri project_id)) = Inr False"
      and "map_of (post_json env (add_firebase_uri project_id)) ''name'' = Some name"
  shows "initialize_firebase env project_id w =
         (case wait_for_operation env name
                 (print [JStr ''Operation name:'', name]
                    (emit (HttpPost (add_firebase_uri project_id)
                             [(''Authorization'', ''Bearer '' @ access_token env)])
                       (emit GetAccessToken
                          (emit (Certificate credentials_path)
                             (print [JStr ''Initializing Firebase...''] w))))) of
            None \<Rightarrow> None
          | Some (Raise e, w3) \<Rightarrow> Some (Raise e, w3)
          | Some (Return _, w3) \<Rightarrow> Some (Return (), write_sentinel project_id w3))"
  using assms by (simp add: initialize_firebase_def get_access_token_def Let_def)

subsection \<open>The search for the deployed URL\<close>

lemma greedy_group_Some:
  assumes "greedy_group line = Some g"
  shows "\<exists>tail. line = g @ '']'' @ tail \<and> g \<noteq> [] \<and> CHR '']'' \<notin> set tail"
proof (cases line)
  case Nil
  with assms show ?thesis by (simp add: greedy_group_def)
next
  case (Cons c cs)
  with assms have mem: "CHR '']'' \<in> set cs"
    and g: "g = c # rev (tl (dropWhile (\<lambda>x. x \<noteq> CHR '']'') (rev cs)))"
    by (auto simp: greedy_group_def split: if_splits)
  let ?P = "\<lambda>x. x \<noteq> CHR '']''"
  from mem have "dropWhile ?P (rev cs) \<noteq> []" by (simp add: dropWhile_eq_Nil_conv)
  then have d: "dropWhile ?P (rev cs) = CHR '']'' # tl (dropWhile ?P (rev cs))"
    using hd_dropWhile[of ?P "rev cs"] by (cases "dropWhile ?P (rev cs)") auto
  have "rev cs = takeWhile ?P (rev cs) @ dropWhile ?P (rev cs)" by simp
  then have "rev cs = takeWhile ?P (rev cs) @ CHR '']'' # tl (dropWhile ?P (rev cs))"
    using d by simp
  then have "rev (rev cs) = rev (takeWhile ?P (rev cs) @ CHR '']'' # tl (dropWhile ?P (rev cs)))"
    by simp
  then have cs: "cs = rev (tl (dropWhile ?P (rev cs))) @ '']'' @ rev (takeWhile ?P (rev cs))"
    by simp
  have "CHR '']'' \<notin> set (rev (takeWhile ?P (rev cs)))"
    using set_takeWhileD[of "CHR '']''" ?P "rev cs"] by auto
  with cs g Cons show ?thesis
    by (intro exI[of _ "rev (takeWhile ?P (rev cs))"]) auto
qed

lemma greedy_group_last_bracket:
  assumes "url \<noteq> []" and "CHR '']'' \<notin> set tail"
  shows "greedy_group (url @ '']'' @ tail) = Some url"
proof -
  from assms(1) obtain c cs where url: "url = c # cs" by (cases url) auto
  have "dropWhile (\<lambda>x. x \<noteq> CHR '']'') (rev tail @ CHR '']'' # rev cs) = CHR '']'' # rev cs"
    using assms(2) by (subst dropWhile_append2) auto
  then show ?thesis by (simp add: greedy_group_def url)
qed

lemma greedy_group_some_bracket:
  assumes "url \<noteq> []"
  shows "greedy_group (url @ '']'' @ tail) \<noteq> None"
proof -
  from assms(1) obtain c cs where url: "url = c # cs" by (cases url) auto
  show ?thesis by (simp add: greedy_group_def url)
qed

lemma match_at_Some:
  assumes "match_at s = Some g"
  shows "\<exists>rest. s = url_prefix @ g @ '']'' @ rest \<and> g \<noteq> [] \<and> newline \<notin> set g"
proof -
  let ?t = "drop (length url_prefix) s"
  let ?line = "takeWhile (\<lambda>x. x \<noteq> newline) ?t"
  from assms have p: "prefix url_prefix s" and gg: "greedy_group ?line = Some g"
    by (auto simp: match_at_def split: if_splits)
  from p have s: "s = url_prefix @ ?t" by (auto simp: prefix_def)
  from greedy_group_Some[OF gg] obtain tail where
    line: "?line = g @ '']'' @ tail" and ne: "g \<noteq> []" by blast
  have "newline \<notin> set ?line" using set_takeWhileD[of newline _ ?t] by auto
  with line have nl: "newline \<notin> set g" by simp
  have "?t = ?line @ dropWhile (\<lambda>x. x \<noteq> newline) ?t" by simp
  with line have "?t = g @ '']'' @ tail @ dropWhile (\<lambda>x. x \<noteq> newline) ?t" by simp
  with s have "s = url_prefix @ g @ '']'' @ (tail @ dropWhile (\<lambda>x. x \<noteq> newline) ?t)"
    by simp
  with ne nl show ?thesis by blast
qed

lemma takeWhile_line:
  assumes "newline \<notin> set url"
  shows "takeWhile (\<lambda>x. x \<noteq> newline) (url @ '']'' @ rest)
       = url @ '']'' @ takeWhile (\<lambda>x. x \<noteq> newline) rest"
  using assms by (subst takeWhile_append2) (auto simp: newline_def)

lemma match_at_last_bracket:
  assumes "url \<noteq> []" and "newline \<notin> set url"
      and "CHR '']'' \<notin> set (takeWhile (\<lambda>x. x \<noteq> newline) rest)"
  shows "match_at (url_prefix @ url @ '']'' @ rest) = Some url"
  using assms
  by (simp add: match_at_def takeWhile_line greedy_group_last_bracket del: append_Cons)

lemma match_at_some_bracket:
  assumes "url \<noteq> []" and "newline \<notin> set url"
  shows "match_at (url_prefix @ url @ '']'' @ rest) \<noteq> None"
  using assms
  by (simp add: match_at_def takeWhile_line greedy_group_some_bracket del: append_Cons)

lemma re_search_here: "match_at s = Some g \<Longrightarrow> re_search s = Some g"
  by (cases s) simp_all

lemma re_search_first:
  "match_at s = Some g \<Longrightarrow> \<forall>i<length pre. match_at (drop i (pre @ s)) = None \<Longrightarrow>
   re_search (pre @ s) = Some g"
proof (induction pre)
  case Nil
  then show ?case by (simp add: re_search_here)
next
  case (Cons c pre)
  from Cons.prems(2) have "match_at (drop 0 ((c # pre) @ s)) = None" by blast
  then have here: "match_at (c # pre @ s) = None" by simp
  have "\<forall>i<length pre. match_at (drop i (pre @ s)) = None"
  proof (intro allI impI)
    fix i assume "i < length pre"
    then have "Suc i < length (c # pre)" by simp
    with Cons.prems(2) have "match_at (drop (Suc i) ((c # pre) @ s)) = None" by blast
    then show "match_at (drop i (pre @ s)) = None" by simp
  qed
  with Cons.IH[OF Cons.prems(1)] here show ?case by simp
qed

lemma re_search_some:
  "match_at s \<noteq> None \<Longrightarrow> re_search (pre @ s) \<noteq> None"
proof (induction pre)
  case Nil
  then show ?case by (cases s) auto
next
  case (Cons c pre)
  then show ?case by (cases "match_at (c # pre @ s)") auto
qed

lemma re_search_Some:
  "re_search log = Some g \<Longrightarrow> \<exists>pre s. log = pre @ s \<and> match_at s = Some g"
proof (induction log)
  case Nil
  then show ?case by auto
next
  case (Cons c cs)
  show ?case
  proof (cases "match_at (c # cs)")
    case None
    with Cons.prems have "re_search cs = Some g" by simp
    from Cons.IH[OF this] obtain pre s where "cs = pre @ s" "match_at s = Some g" by blast
    then have "c # cs = (c # pre) @ s \<and> match_at s = Some g" by simp
    then show ?thesis by blast
  next
    case (Some g')
    with Cons.prems have "match_at (c # cs) = Some g" by simp
    then have "c # cs = [] @ (c # cs) \<and> match_at (c # cs) = Some g" by simp
    then show ?thesis by blast
  qed
qed

lemma re_search_None_iff: "re_search log = None \<longleftrightarrow> \<not> pattern_occurs log"
proof
  assume none: "re_search log = None"
  show "\<not> pattern_occurs log"
  proof
    assume "pattern_occurs log"
    then obtain pre url rest where "log = pre @ url_prefix @ url @ '']'' @ rest"
      "url \<noteq> []" "newline \<notin> set url" unfolding pattern_occurs_def by blast
    with re_search_some[OF match_at_some_bracket[of url rest], of pre] none show False
      by simp
  qed
next
  assume no: "\<not> pattern_occurs log"
  show "re_search log = None"
  proof (cases "re_search log")
    case None then show ?thesis .
  next
    case (Some g)
    from re_search_Some[OF this] obtain pre s where "log = pre @ s" "match_at s = Some g"
      by blast
    with match_at_Some[of s g] have "pattern_occurs log"
      unfolding pattern_occurs_def by blast
    with no show ?thesis by simp
  qed
qed

lemma deploy_result:
  "fst (deploy env w) =
     (case re_search (snd (popen_output env ''gcloud app deploy --quiet'')) of
        None \<Rightarrow> Raise TypeError
      | Some url \<Rightarrow> Return url)"
  by (simp add: deploy_def popen_def Let_def split: prod.splits option.splits)

lemma no_start_without_D:
  assumes "CHR ''D'' \<notin> set pre"
  shows "\<forall>i<length pre. \<not> prefix url_prefix (drop i (pre @ s))"
proof (intro allI impI)
  fix i assume i: "i < length pre"
  then have "drop i (pre @ s) = pre ! i # drop (Suc i) pre @ s"
    by (simp add: Cons_nth_drop_Suc)
  moreover have "pre ! i \<noteq> CHR ''D''" using assms i nth_mem by metis
  ultimately show "\<not> prefix url_prefix (drop i (pre @ s))"
    by (simp add: url_prefix_def)
qed

lemma no_match_without_D:
  assumes "CHR ''D'' \<notin> set pre"
  shows "\<forall>i<length pre. match_at (drop i (pre @ s)) = None"
  using no_start_without_D[OF assms, of s] by (simp add: match_at_def)

subsection \<open>Commands of a trace\<close>

lemma commands_simps [simp]:
  "commands [] = []"
  "commands (Run argv # es) = argv # commands es"
  "commands (Print args # es) = commands es"
  by (simp_all add: commands_def List.map_filter_simps)

subsection \<open>Prompt loops and region selection\<close>

lemma commands_append [simp]: "commands (xs @ ys) = commands xs @ commands ys"
  by (simp add: commands_def List.map_filter_def)

lemma commands_other [simp]:
  "commands (Input p # es) = commands es"
  "commands (Popen cmd cwd # es) = commands es"
  "commands (replicate n (Input p)) = []"
  by (simp_all add: commands_def List.map_filter_def)

lemma input_while_found:
  "c x \<Longrightarrow> stdin w = skipped @ l # rest \<Longrightarrow> \<forall>s\<in>set skipped. c s \<Longrightarrow> \<not> c l \<Longrightarrow>
   input_while c p x w
     = (Return l, w\<lparr>stdin := rest,
                     trace := trace w @ replicate (Suc (length skipped)) (Input p)\<rparr>)"
proof (induction skipped arbitrary: x w)
  case Nil
  then show ?case by (simp add: input_def emit_def)
next
  case (Cons s skipped)
  let ?w1 = "emit (Input p) (w\<lparr>stdin := skipped @ l # rest\<rparr>)"
  have step: "input_while c p x w = input_while c p s ?w1"
    using Cons.prems(1,2) by (simp add: input_def)
  have "input_while c p s ?w1
     = (Return l, ?w1\<lparr>stdin := rest,
                     trace := trace ?w1 @ replicate (Suc (length skipped)) (Input p)\<rparr>)"
    using Cons.prems by (intro Cons.IH) (simp_all add: emit_def)
  then show ?case unfolding step by (simp add: emit_def)
qed

lemma input_while_outcome:
  "\<exists>n. trace (snd (input_while c p x w)) = trace w @ replicate n (Input p)
      \<and> (case fst (input_while c p x w) of Return l \<Rightarrow> \<not> c l | Raise e \<Rightarrow> e = EOFError)"
proof (induction c p x w rule: input_while.induct)
  case (1 continue prompt x w)
  show ?case
  proof (cases "continue x")
    case False
    then have "trace (snd (input_while continue prompt x w)) = trace w @ replicate 0 (Input prompt)
      \<and> (case fst (input_while continue prompt x w) of Return l \<Rightarrow> \<not> continue l | Raise e \<Rightarrow> e = EOFError)"
      by simp
    then show ?thesis by blast
  next
    case True
    show ?thesis
    proof (cases "stdin w")
      case Nil
      with True have "trace (snd (input_while continue prompt x w))
                        = trace w @ replicate 1 (Input prompt)
        \<and> (case fst (input_while continue prompt x w) of Return l \<Rightarrow> \<not> continue l | Raise e \<Rightarrow> e = EOFError)"
        by (simp add: input_def)
      then show ?thesis by blast
    next
      case (Cons l ls)
      let ?w1 = "emit (Input prompt) (w\<lparr>stdin := ls\<rparr>)"
      have inp: "input prompt w = (Return l, ?w1)" using Cons by (simp add: input_def)
      have step: "input_while continue prompt x w = input_while continue prompt l ?w1"
        using True inp by simp
      from "1.IH"[OF True inp[symmetric] refl] obtain n where
        n: "trace (snd (input_while continue prompt l ?w1)) = trace ?w1 @ replicate n (Input prompt)"
        and r: "(case fst (input_while continue prompt l ?w1) of Return l \<Rightarrow> \<not> continue l | Raise e \<Rightarrow> e = EOFError)"
        by blast
      have "trace (snd (input_while continue prompt x w)) = trace w @ replicate (Suc n) (Input prompt)"
        unfolding step n by (simp add: emit_def)
      with r step show ?thesis by metis
    qed
  qed
qed

lemma input_while_eof:
  "c x \<Longrightarrow> \<forall>s\<in>set (stdin w). c s \<Longrightarrow>
   input_while c p x w
     = (Raise EOFError,
        w\<lparr>stdin := [], trace := trace w @ replicate (Suc (length (stdin w))) (Input p)\<rparr>)"
proof (induction "stdin w" arbitrary: x w)
  case Nil
  then show ?case by (simp add: input_def emit_def)
next
  case (Cons l ls)
  let ?w1 = "emit (Input p) (w\<lparr>stdin := ls\<rparr>)"
  from Cons.hyps(2) have st: "stdin w = l # ls" by simp
  have step: "input_while c p x w = input_while c p l ?w1"
    using Cons.prems(1) st by (simp add: input_def)
  have "input_while c p l ?w1
     = (Raise EOFError,
        ?w1\<lparr>stdin := [], trace := trace ?w1 @ replicate (Suc (length (stdin ?w1))) (Input p)\<rparr>)"
    using Cons.prems(2) st by (intro Cons.hyps(1)) (simp_all add: emit_def)
  then show ?case unfolding step by (simp add: emit_def st)
qed

declare input_while.simps [simp del]

lemma split_ws_no_break_space:
  "split_ws (''us'' @ [CHR 0xA0] @ ''central YES'') = [''us'', ''central'', ''YES'']"
  by (simp add: split_ws_def isspace_def)

lemma regions_of_no_break_space:
  "regions_of (''REGION  SUPPORTS'' @ [newline] @ ''us'' @ [CHR 0xA0] @ ''central YES''
               @ [newline])
     = Inr [''us'']"
  by (simp add: regions_of_def split_ws_def isspace_def newline_def)

lemma tokens_nonempty: "[] \<notin> set (tokens cur s)"
  by (induction s arbitrary: cur) auto

lemma first_words_nonempty: "first_words xs = Inr ws \<Longrightarrow> [] \<notin> set ws"
proof (induction xs arbitrary: ws)
  case Nil
  then show ?case by simp
next
  case (Cons x xs)
  then show ?case
    using tokens_nonempty[of "[]" x]
    by (auto simp: split_ws_def split: list.splits sum.splits)
qed


lemma set_region_no_error:
  "snd (popen_output env ''gcloud app describe'') = [] \<Longrightarrow>
   set_region env w = (Return (), emit (Popen ''gcloud app describe'' None) w)"
  by (cases "popen_output env ''gcloud app describe''";
      cases "popen_output env ''gcloud app regions list''")
     (simp add: set_region_def popen_def)

lemma set_region_bad_table:
  "snd (popen_output env ''gcloud app describe'') \<noteq> [] \<Longrightarrow>
   regions_of (fst (popen_output env ''gcloud app regions list'')) = Inl e \<Longrightarrow>
   set_region env w
     = (Raise e, emit (Popen ''gcloud app regions list'' None)
                   (emit (Popen ''gcloud app describe'' None) w))"
  by (cases "popen_output env ''gcloud app describe''";
      cases "popen_output env ''gcloud app regions list''")
     (simp add: set_region_def popen_def)

lemma set_region_prompting:
  "snd (popen_output env ''gcloud app describe'') \<noteq> [] \<Longrightarrow>
   regions_of (fst (popen_output env ''gcloud app regions list'')) = Inr regions \<Longrightarrow>
   set_region env w
     = and_then
         (input_while (\<lambda>deploy_region. deploy_region \<notin> set regions)
            ''Choose a region for the App Engine project: '' []
            (print [JStr (join [newline] regions)]
               (print [JStr (newline # ''Regions:'')]
                  (emit (Popen ''gcloud app regions list'' None)
                     (emit (Popen ''gcloud app describe'' None) w)))))
         (\<lambda>deploy_region. run env (app_create deploy_region))"
  by (cases "popen_output env ''gcloud app describe''";
      cases "popen_output env ''gcloud app regions list''")
     (simp add: set_region_def popen_def)

lemma issued_emit_only [simp]:
  "issued w (r, emit (Popen cmd cwd) w) = []"
  "issued w (r, emit (Popen cmd' cwd') (emit (Popen cmd cwd) w)) = []"
  by (simp_all add: issued_def)

lemma set_region_issued:
  "issued w (set_region env w) = []
   \<or> (snd (popen_output env ''gcloud app describe'') \<noteq> []
      \<and> (\<exists>regions r. regions_of (fst (popen_output env ''gcloud app regions list'')) = Inr regions
            \<and> r \<in> set regions
            \<and> issued w (set_region env w) = [app_create r]
            \<and> fst (set_region env w)
                = (if run_status env (app_create r) then Return ()
                   else Raise (CalledProcessError (app_create r)))))"
proof (cases "snd (popen_output env ''gcloud app describe'') = []")
  case True
  then show ?thesis by (simp add: set_region_no_error)
next
  case err: False
  show ?thesis
  proof (cases "regions_of (fst (popen_output env ''gcloud app regions list''))")
    case (Inl e)
    then show ?thesis using err by (simp add: set_region_bad_table)
  next
    case (Inr regions)
    let ?w3 = "print [JStr (join [newline] regions)]
               (print [JStr (newline # ''Regions:'')]
                  (emit (Popen ''gcloud app regions list'' None)
                     (emit (Popen ''gcloud app describe'' None) w)))"
    let ?iw = "input_while (\<lambda>deploy_region. deploy_region \<notin> set regions)
            ''Choose a region for the App Engine project: '' [] ?w3"
    from input_while_outcome[of "\<lambda>deploy_region. deploy_region \<notin> set regions"
        "''Choose a region for the App Engine project: ''" "[]" ?w3]
    obtain n where
      tr: "trace (snd ?iw) = trace ?w3
             @ replicate n (Input ''Choose a region for the App Engine project: '')"
      and res: "(case fst ?iw of Return l \<Rightarrow> \<not> l \<notin> set regions | Raise e \<Rightarrow> e = EOFError)"
      by blast
    show ?thesis
    proof (cases "fst ?iw")
      case (Raise e)
      then have "set_region env w = (Raise e, snd ?iw)"
        unfolding set_region_prompting[OF err Inr] and_then_def
        by (cases ?iw) simp
      then have "issued w (set_region env w) = []"
        by (simp add: issued_def tr)
      then show ?thesis by simp
    next
      case (Return r)
      with res have mem: "r \<in> set regions" by simp
      from Return have sr: "set_region env w = run env (app_create r) (snd ?iw)"
        unfolding set_region_prompting[OF err Inr] and_then_def
        by (cases ?iw) simp
      have "issued w (set_region env w) = [app_create r]"
        unfolding sr by (simp add: issued_def run_def tr)
      moreover have "fst (set_region env w)
                = (if run_status env (app_create r) then Return ()
                   else Raise (CalledProcessError (app_create r)))"
        unfolding sr by (simp add: run_def)
      ultimately show ?thesis using err Inr mem by blast
    qed
  qed
qed

lemma set_region_returned:
  assumes "fst (set_region env w) = Return ()"
      and "snd (popen_output env ''gcloud app describe'') \<noteq> []"
  shows "issued w (set_region env w) \<noteq> []"
proof (cases "regions_of (fst (popen_output env ''gcloud app regions list''))")
  case (Inl e)
  with assms show ?thesis by (simp add: set_region_bad_table)
next
  case (Inr regions)
  let ?w3 = "print [JStr (join [newline] regions)]
               (print [JStr (newline # ''Regions:'')]
                  (emit (Popen ''gcloud app regions list'' None)
                     (emit (Popen ''gcloud app describe'' None) w)))"
  let ?iw = "input_while (\<lambda>deploy_region. deploy_region \<notin> set regions)
            ''Choose a region for the App Engine project: '' [] ?w3"
  from input_while_outcome[of "\<lambda>deploy_region. deploy_region \<notin> set regions"
        "''Choose a region for the App Engine project: ''" "[]" ?w3]
  obtain n where
      tr: "trace (snd ?iw) = trace ?w3
             @ replicate n (Input ''Choose a region for the App Engine project: '')"
    by blast
  show ?thesis
  proof (cases "fst ?iw")
    case (Raise e)
    then have "set_region env w = (Raise e, snd ?iw)"
      unfolding set_region_prompting[OF assms(2) Inr] and_then_def
      by (cases ?iw) simp
    with assms(1) show ?thesis by simp
  next
    case (Return r)
    then have sr: "set_region env w = run env (app_create r) (snd ?iw)"
      unfolding set_region_prompting[OF assms(2) Inr] and_then_def
      by (cases ?iw) simp
    show ?thesis unfolding sr by (simp add: issued_def run_def tr)
  qed
qed

lemma set_region_chosen:
  assumes "snd (popen_output env ''gcloud app describe'') \<noteq> []"
      and "regions_of (fst (popen_output env ''gcloud app regions list'')) = Inr regions"
      and "stdin w = skipped @ r # rest"
      and "\<forall>s\<in>set skipped. s \<notin> set regions"
      and "r \<in> set regions"
  shows "events_since w (Some (set_region env w))
           = Some ([Popen ''gcloud app describe'' None,
                    Popen ''gcloud app regions list'' None,
                    Print [JStr (newline # ''Regions:'')],
                    Print [JStr (join [newline] regions)]]
                   @ replicate (Suc (length skipped))
                       (Input ''Choose a region for the App Engine project: '')
                   @ [Run (app_create r)])"
proof -
  have ne: "[] \<notin> set regions"
    using assms(2) first_words_nonempty unfolding regions_of_def by blast
  let ?w3 = "print [JStr (join [newline] regions)]
               (print [JStr (newline # ''Regions:'')]
                  (emit (Popen ''gcloud app regions list'' None)
                     (emit (Popen ''gcloud app describe'' None) w)))"
  have st: "stdin ?w3 = skipped @ r # rest"
    using assms(3) by (simp add: print_def emit_def)
  have "\<not> r \<notin> set regions" using assms(5) by simp
  from input_while_found[of "\<lambda>deploy_region. deploy_region \<notin> set regions" "[]" ?w3
      skipped r rest "''Choose a region for the App Engine project: ''", OF ne st assms(4) this]
  show ?thesis
    unfolding set_region_prompting[OF assms(1,2)]
    by (simp add: and_then_def run_def events_since_def)
qed

subsection \<open>The steps of a run\<close>



































lemma events_since_None [simp]: "events_since w None = None"
  by (simp add: events_since_def)


subsection \<open>The claims\<close>

text \<open>
  C1. For every non-empty project id and every non-empty partner key, configuration
  emission returns normally and leaves at the configuration path a mapping whose
  \<open>verification_token\<close> is the partner key, unchanged, and whose
  \<open>firebase_database_url\<close> is \<open>https://\<close> followed by the project id, unchanged,
  followed by \<open>.firebaseio.com\<close>, whatever the file held before.
\<close>

theorem create_config_fields:
  assumes "project_id \<noteq> []" and "partner_key \<noteq> []"
  shows "fst (create_config project_id partner_key w) = Return ()
       \<and> field ''verification_token''
            (written_config (snd (create_config project_id partner_key w)))
          = Some (JStr partner_key)
       \<and> field ''firebase_database_url''
            (written_config (snd (create_config project_id partner_key w)))
          = Some (JStr (''https://'' @ project_id @ ''.firebaseio.com''))"
  by (simp add: create_config_def json_dump_def written_config_def field_def config_of_def
      emit_def print_def Let_def)

theorem create_config_fields_witness:
  "field ''verification_token''
     (written_config (snd (create_config ''my-project'' ''s3cr3t'' (initial_world []))))
     = Some (JStr ''s3cr3t'')
   \<and> field ''firebase_database_url''
     (written_config (snd (create_config ''my-project'' ''s3cr3t'' (initial_world []))))
     = Some (JStr ''https://my-project.firebaseio.com'')"
  using create_config_fields [of "''my-project''" "''s3cr3t''" "initial_world []"] by simp

text \<open>
  C2. When the body of the answer to the add-database request holds, under \<open>error\<close>, an
  object whose \<open>code\<close> is 409, \<^verbatim>\<open>initialize_firebase\<close> returns normally after printing
  that the entity already exists: it makes no polling call and writes no sentinel
  record. This holds whatever the status code of the answer is.
\<close>

theorem already_exists_no_polling:
  assumes "map_of (post_json env (add_firebase_uri project_id)) ''error'' = Some (JObj err)"
      and "map_of err ''code'' = Some (JInt 409)"
  shows "outcome (initialize_firebase env project_id w) = Some (Return ())
       \<and> events_since w (initialize_firebase env project_id w)
           = Some [Print [JStr ''Initializing Firebase...''],
                   Certificate credentials_path, GetAccessToken,
                   HttpPost (add_firebase_uri project_id)
                     [(''Authorization'', ''Bearer '' @ access_token env)],
                   Print [JStr ''Firebase entity already exists'']]
       \<and> map_option (filter is_poll) (events_since w (initialize_firebase env project_id w))
           = Some []
       \<and> map_option (filter is_sentinel_write)
            (events_since w (initialize_firebase env project_id w)) = Some []"
  using assms
  by (simp add: initialize_firebase_def get_access_token_def error_code_is_409_def Let_def
      events_since_def outcome_def)

theorem already_exists_no_polling_witness:
  "outcome (initialize_firebase (mock_env conflict_answer slow_operation) ''my-project''
              (initial_world [])) = Some (Return ())
   \<and> map_option (filter is_poll)
        (events_since (initial_world [])
           (initialize_firebase (mock_env conflict_answer slow_operation) ''my-project''
              (initial_world []))) = Some []
   \<and> map_option (filter is_sentinel_write)
        (events_since (initial_world [])
           (initialize_firebase (mock_env conflict_answer slow_operation) ''my-project''
              (initial_world []))) = Some []"
  using already_exists_no_polling
    [of "mock_env conflict_answer slow_operation" "''my-project''"
        "[(''code'', JInt 409), (''status'', JStr ''ALREADY_EXISTS'')]" "initial_world []"]
  by (simp add: mock_env_def conflict_answer_def)

text \<open>
  The status line of the answer decides nothing: line 163 reads the code from the body,
  and the script never looks at \<^verbatim>\<open>req.status_code\<close>. An answer with status 409 whose body
  names an operation is polled, and the sentinel record is written.
\<close>

theorem status_409_with_name_polls:
  "post_status conflict_status_env (add_firebase_uri ''my-project'') = 409
   \<and> outcome (initialize_firebase conflict_status_env ''my-project'' (initial_world []))
       = Some (Return ())
   \<and> map_option (filter is_poll)
        (events_since (initial_world [])
           (initialize_firebase conflict_status_env ''my-project'' (initial_world [])))
       = Some [OperationGet (JStr ''operations/1'')]
   \<and> map_option (filter is_sentinel_write)
        (events_since (initial_world [])
           (initialize_firebase conflict_status_env ''my-project'' (initial_world [])))
       = Some [DbSet ''setup/'' (JObj [(''completed'', JBool True)])]"
proof -
  have a: "error_code_is_409 (post_json conflict_status_env (add_firebase_uri ''my-project''))
             = Inr False"
    by (simp add: conflict_status_env_def mock_env_def accepted_answer_def error_code_is_409_def)
  have b: "map_of (post_json conflict_status_env (add_firebase_uri ''my-project'')) ''name''
             = Some (JStr ''operations/1'')"
    by (simp add: conflict_status_env_def mock_env_def accepted_answer_def)
  have c: "map_of (operation_get conflict_status_env (JStr ''operations/1'') 0) ''error'' = None"
    by (simp add: conflict_status_env_def mock_env_def done_operation_def)
  have d: "reports_done (operation_get conflict_status_env (JStr ''operations/1'') 0)"
    by (simp add: conflict_status_env_def mock_env_def done_operation_def reports_done_def)
  have s: "post_status conflict_status_env (add_firebase_uri ''my-project'') = 409"
    by (simp add: conflict_status_env_def)
  show ?thesis
    unfolding initialize_firebase_polling[OF a b] wait_for_operation_def
      poll_loop_done[OF c d]
    by (simp add: s write_sentinel_def events_since_def outcome_def initial_world_def
        print_def emit_def)
qed

text \<open>
  C3. When the add-database request has started an operation (the answer is not the 409
  case and has a \<open>name\<close>) and the first poll that does not leave the operation pending
  has an \<open>error\<close> key, \<^verbatim>\<open>initialize_firebase\<close> ends with \<open>Exception\<close> carrying the value
  under that key, right after that poll, and the run has written no sentinel record.
\<close>

theorem polled_error_aborts:
  assumes "error_code_is_409 (post_json env (add_firebase_uri project_id)) = Inr False"
      and "map_of (post_json env (add_firebase_uri project_id)) ''name'' = Some name"
      and "\<forall>k<n. pending (operation_get env name k)"
      and "map_of (operation_get env name n) ''error'' = Some err"
  shows "outcome (initialize_firebase env project_id w) = Some (Raise (Exception err))
       \<and> events_since w (initialize_firebase env project_id w)
           = Some ([Print [JStr ''Initializing Firebase...''],
                    Certificate credentials_path, GetAccessToken,
                    HttpPost (add_firebase_uri project_id)
                      [(''Authorization'', ''Bearer '' @ access_token env)],
                    Print [JStr ''Operation name:'', name],
                    FromServiceAccountFile credentials_path,
                    BuildService ''firebase'' ''v1beta1'',
                    Print [JStr ''Waiting for Firebase add operation to complete...'']]
                   @ rounds name n @ [OperationGet name])
       \<and> map_option (filter is_sentinel_write)
            (events_since w (initialize_firebase env project_id w)) = Some []"
proof -
  let ?w2 = "print [JStr ''Operation name:'', name]
                    (emit (HttpPost (add_firebase_uri project_id)
                             [(''Authorization'', ''Bearer '' @ access_token env)])
                       (emit GetAccessToken
                          (emit (Certificate credentials_path)
                             (print [JStr ''Initializing Firebase...''] w))))"
  from wait_for_operation_error[OF assms(3,4), of ?w2] obtain w' where
    w': "wait_for_operation env name ?w2 = Some (Raise (Exception err), w')"
        "trace w' = trace ?w2
               @ [FromServiceAccountFile credentials_path, BuildService ''firebase'' ''v1beta1'',
                  Print [JStr ''Waiting for Firebase add operation to complete...'']]
               @ rounds name n
               @ [OperationGet name]"
    by blast
  have run: "initialize_firebase env project_id w = Some (Raise (Exception err), w')"
    unfolding initialize_firebase_polling[OF assms(1,2)] w'(1) by simp
  have ev: "events_since w (initialize_firebase env project_id w)
           = Some ([Print [JStr ''Initializing Firebase...''],
                    Certificate credentials_path, GetAccessToken,
                    HttpPost (add_firebase_uri project_id)
                      [(''Authorization'', ''Bearer '' @ access_token env)],
                    Print [JStr ''Operation name:'', name],
                    FromServiceAccountFile credentials_path,
                    BuildService ''firebase'' ''v1beta1'',
                    Print [JStr ''Waiting for Firebase add operation to complete...'']]
                   @ rounds name n @ [OperationGet name])"
    unfolding run by (rule events_since_Some) (simp add: w'(2))
  show ?thesis unfolding ev by (simp add: run)
qed

theorem polled_error_aborts_witness:
  "outcome (initialize_firebase (mock_env accepted_answer late_failure) ''my-project''
              (initial_world [])) = Some (Raise (Exception (JObj [(''code'', JInt 7)])))
   \<and> map_option (filter is_sentinel_write)
        (events_since (initial_world [])
           (initialize_firebase (mock_env accepted_answer late_failure) ''my-project''
              (initial_world []))) = Some []"
proof -
  have a: "error_code_is_409 (post_json (mock_env accepted_answer late_failure)
              (add_firebase_uri ''my-project'')) = Inr False"
    by (simp add: mock_env_def accepted_answer_def error_code_is_409_def)
  have b: "map_of (post_json (mock_env accepted_answer late_failure)
              (add_firebase_uri ''my-project'')) ''name'' = Some (JStr ''operations/1'')"
    by (simp add: mock_env_def accepted_answer_def)
  have c: "\<forall>k<1. pending (operation_get (mock_env accepted_answer late_failure)
              (JStr ''operations/1'') k)"
    by (simp add: mock_env_def late_failure_def pending_def reports_done_def)
  have d: "map_of (operation_get (mock_env accepted_answer late_failure)
              (JStr ''operations/1'') 1) ''error'' = Some (JObj [(''code'', JInt 7)])"
    by (simp add: mock_env_def late_failure_def)
  show ?thesis
    using polled_error_aborts[OF a b c d, of "initial_world []"] by simp
qed

text \<open>
  C4. Polls are counted from 0. If the polls before poll \<open>n\<close> leave the operation pending
  (no \<open>error\<close> key, no true \<open>done\<close>) and poll \<open>n\<close> reports \<open>done: true\<close> and has no
  \<open>error\<close> key itself, then \<^verbatim>\<open>wait_for_operation\<close> returns normally after exactly \<open>n + 1\<close>
  polls, with one sleep of one second after each of the first \<open>n\<close> polls and none after
  the last. If every poll leaves the operation pending, \<^verbatim>\<open>wait_for_operation\<close> never
  returns.
\<close>

theorem wait_for_operation_polls:
  "((\<forall>k<n. pending (operation_get env name k))
     \<and> map_of (operation_get env name n) ''error'' = None
     \<and> reports_done (operation_get env name n)
    \<longrightarrow> outcome (wait_for_operation env name w) = Some (Return ())
      \<and> events_since w (wait_for_operation env name w)
          = Some ([FromServiceAccountFile credentials_path, BuildService ''firebase'' ''v1beta1'',
                   Print [JStr ''Waiting for Firebase add operation to complete...'']]
                  @ rounds name n
                  @ [OperationGet name, Print [JStr ''Add Firebase operation completed.'']])
      \<and> map_option (length \<circ> filter is_poll) (events_since w (wait_for_operation env name w))
          = Some (Suc n)
      \<and> map_option (filter is_sleep) (events_since w (wait_for_operation env name w))
          = Some (replicate n (Sleep 1)))
   \<and> ((\<forall>k. pending (operation_get env name k))
    \<longrightarrow> wait_for_operation env name w = None)"
proof (intro conjI impI)
  assume h: "(\<forall>k<n. pending (operation_get env name k))
     \<and> map_of (operation_get env name n) ''error'' = None
     \<and> reports_done (operation_get env name n)"
  then obtain w' where w': "wait_for_operation env name w = Some (Return (), w')"
    "trace w' = trace w
               @ [FromServiceAccountFile credentials_path, BuildService ''firebase'' ''v1beta1'',
                  Print [JStr ''Waiting for Firebase add operation to complete...'']]
               @ rounds name n
               @ [OperationGet name, Print [JStr ''Add Firebase operation completed.'']]"
    using wait_for_operation_done[of n env name w] by blast
  show "outcome (wait_for_operation env name w) = Some (Return ())" by (simp add: w'(1))
  show ev: "events_since w (wait_for_operation env name w)
          = Some ([FromServiceAccountFile credentials_path, BuildService ''firebase'' ''v1beta1'',
                   Print [JStr ''Waiting for Firebase add operation to complete...'']]
                  @ rounds name n
                  @ [OperationGet name, Print [JStr ''Add Firebase operation completed.'']])"
    unfolding w'(1) by (rule events_since_Some) (simp add: w'(2))
  show "map_option (length \<circ> filter is_poll) (events_since w (wait_for_operation env name w))
          = Some (Suc n)" unfolding ev by simp
  show "map_option (filter is_sleep) (events_since w (wait_for_operation env name w))
          = Some (replicate n (Sleep 1))" unfolding ev by simp
next
  assume "\<forall>k. pending (operation_get env name k)"
  then show "wait_for_operation env name w = None"
    unfolding wait_for_operation_def by (rule poll_loop_forever)
qed

theorem wait_for_operation_polls_witness:
  "outcome (wait_for_operation (mock_env [] slow_operation) (JStr ''operations/1'') (initial_world []))
     = Some (Return ())
   \<and> map_option (length \<circ> filter is_poll)
       (events_since (initial_world [])
          (wait_for_operation (mock_env [] slow_operation) (JStr ''operations/1'') (initial_world [])))
     = Some 3
   \<and> wait_for_operation (mock_env [] stuck_operation) (JStr ''operations/1'') (initial_world []) = None"
proof -
  have a: "(\<forall>k<2. pending (operation_get (mock_env [] slow_operation) (JStr ''operations/1'') k))
     \<and> map_of (operation_get (mock_env [] slow_operation) (JStr ''operations/1'') 2) ''error'' = None
     \<and> reports_done (operation_get (mock_env [] slow_operation) (JStr ''operations/1'') 2)"
    by (simp add: mock_env_def slow_operation_def pending_def reports_done_def)
  have b: "\<forall>k. pending (operation_get (mock_env [] stuck_operation) (JStr ''operations/1'') k)"
    by (simp add: mock_env_def stuck_operation_def pending_def reports_done_def)
  show ?thesis
    using wait_for_operation_polls[of 2 "mock_env [] slow_operation" "JStr ''operations/1''" "initial_world []"]
      wait_for_operation_polls[of 0 "mock_env [] stuck_operation" "JStr ''operations/1''" "initial_world []"]
      a b by simp
qed

text \<open>
  The condition on poll \<open>n\<close> itself is needed: \<^verbatim>\<open>'error' in result\<close> is tested before
  \<^verbatim>\<open>'done'\<close>, so a first answer that reports \<open>done: true\<close> together with an \<open>error\<close>
  makes the loop raise instead of return.
\<close>

theorem done_with_error_raises:
  "reports_done (operation_get (mock_env [] failed_operation) (JStr ''operations/1'') 0)
   \<and> outcome (wait_for_operation (mock_env [] failed_operation) (JStr ''operations/1'') (initial_world []))
     = Some (Raise (Exception (JObj [(''code'', JInt 7)])))"
  by (simp add: wait_for_operation_def poll_loop_error mock_env_def failed_operation_def reports_done_def)


text \<open>
  C5. When the log holds the text \<^verbatim>\<open>Deployed service [default] to [\<close>, then a non-empty
  \<open>url\<close> without a line feed, then a closing bracket, when the rest of that line has no
  further closing bracket and no match of the pattern starts earlier in the log,
  \<^verbatim>\<open>deploy\<close> returns exactly \<open>url\<close>. An earlier occurrence of the opening text that is not
  followed by a closing bracket on its line does not matter.
\<close>

theorem deploy_returns_url:
  assumes "snd (popen_output env ''gcloud app deploy --quiet'')
             = pre @ url_prefix @ url @ '']'' @ rest"
      and "\<forall>i<length pre. match_at (drop i (pre @ url_prefix @ url @ '']'' @ rest)) = None"
      and "url \<noteq> []" and "newline \<notin> set url"
      and "CHR '']'' \<notin> set (takeWhile (\<lambda>c. c \<noteq> newline) rest)"
  shows "fst (deploy env w) = Return url"
proof -
  have here: "match_at (url_prefix @ url @ '']'' @ rest) = Some url"
    using assms(3-5) by (rule match_at_last_bracket)
  from re_search_first[OF here assms(2)] show ?thesis
    by (simp add: deploy_result assms(1))
qed

theorem deploy_returns_url_witness:
  "fst (deploy (deploy_env usual_log) (initial_world [])) = Return ''https://example.appspot.com''
   \<and> fst (deploy (deploy_env retried_log) (initial_world []))
       = Return ''https://example.appspot.com''"
proof -
  have a: "snd (popen_output (deploy_env usual_log) ''gcloud app deploy --quiet'')
             = (''Updating service [default]...done.'' @ [newline])
               @ url_prefix @ ''https://example.appspot.com'' @ '']''
               @ (newline # newline # ''You can stream logs [default] from the command line'')"
    by (simp add: deploy_env_def usual_log_def)
  have b: "\<forall>i<length (''Updating service [default]...done.'' @ [newline]).
             match_at
                 (drop i ((''Updating service [default]...done.'' @ [newline])
               @ url_prefix @ ''https://example.appspot.com'' @ '']''
               @ (newline # newline # ''You can stream logs [default] from the command line'')))
             = None"
    by (rule no_match_without_D) (simp add: newline_def)
  have c: "snd (popen_output (deploy_env retried_log) ''gcloud app deploy --quiet'')
             = (url_prefix @ ''pending'' @ [newline])
               @ url_prefix @ ''https://example.appspot.com'' @ '']'' @ [newline]"
    by (simp add: deploy_env_def retried_log_def)
  have d: "\<forall>i<length (url_prefix @ ''pending'' @ [newline]).
             match_at
                 (drop i ((url_prefix @ ''pending'' @ [newline])
               @ url_prefix @ ''https://example.appspot.com'' @ '']'' @ [newline]))
             = None"
  proof (intro allI impI)
    fix i assume i: "i < length (url_prefix @ ''pending'' @ [newline])"
    let ?s = "url_prefix @ ''https://example.appspot.com'' @ '']'' @ [newline]"
    have pre: "url_prefix @ ''pending'' @ [newline]
                 = CHR ''D'' # (''eployed service [default] to [pending'' @ [newline])"
      by (simp add: url_prefix_def)
    show "match_at (drop i ((url_prefix @ ''pending'' @ [newline]) @ ?s)) = None"
    proof (cases i)
      case 0
      then show ?thesis
        by (simp add: match_at_def greedy_group_def url_prefix_def newline_def)
    next
      case (Suc j)
      from i have "i < length (CHR ''D'' # (''eployed service [default] to [pending'' @ [newline]))"
        unfolding pre .
      with Suc have j: "j < length (''eployed service [default] to [pending'' @ [newline])"
        by simp
      have "match_at (drop j ((''eployed service [default] to [pending'' @ [newline]) @ ?s))
              = None"
        using no_match_without_D[of "''eployed service [default] to [pending'' @ [newline]" ?s] j
        by (simp add: newline_def)
      then show ?thesis unfolding pre Suc by simp
    qed
  qed
  show ?thesis
    using deploy_returns_url[OF a b, of "initial_world []"]
      deploy_returns_url[OF c d, of "initial_world []"]
    by (simp add: newline_def)
qed

text \<open>
  The condition on the rest of the line is needed: the group \<^verbatim>\<open>(.+)\<close> is greedy, so with
  another closing bracket later on the line the value returned runs up to that one.
\<close>

theorem deploy_greedy_bracket:
  "snd (popen_output (deploy_env trailing_log) ''gcloud app deploy --quiet'')
     = ''Deployed service [default] to [https://example.appspot.com]'' @ '' [ok]''
   \<and> fst (deploy (deploy_env trailing_log) (initial_world []))
     = Return ''https://example.appspot.com] [ok''"
  by (simp add: deploy_result deploy_env_def trailing_log_def match_at_def greedy_group_def
      url_prefix_def newline_def)

text \<open>
  C6. When the pattern occurs nowhere in the log, \<^verbatim>\<open>deploy\<close> ends with the \<open>TypeError\<close> of
  \<^verbatim>\<open>deploy_url[1]\<close> on \<^verbatim>\<open>None\<close>.
\<close>

theorem deploy_without_match_raises:
  assumes "\<not> pattern_occurs (snd (popen_output env ''gcloud app deploy --quiet''))"
  shows "fst (deploy env w) = Raise TypeError"
  using assms by (simp add: deploy_result re_search_None_iff[symmetric])

theorem deploy_without_match_raises_witness:
  "fst (deploy (deploy_env empty_url_log) (initial_world [])) = Raise TypeError"
proof -
  have "re_search empty_url_log = None"
    by (simp add: empty_url_log_def match_at_def greedy_group_def url_prefix_def newline_def)
  then have "\<not> pattern_occurs (snd (popen_output (deploy_env empty_url_log)
                                       ''gcloud app deploy --quiet''))"
    by (simp add: re_search_None_iff deploy_env_def)
  from deploy_without_match_raises[OF this] show ?thesis .
qed

text \<open>
  The script has no \<^verbatim>\<open>raise\<close> of its own on this path: on the log of a failed deployment
  the search finds nothing and the run ends with the interpreter's \<open>TypeError\<close>.
\<close>

theorem deploy_failure_is_TypeError:
  "re_search failed_log = None
   \<and> fst (deploy (deploy_env failed_log) (initial_world [])) = Raise TypeError"
  by (simp add: deploy_result deploy_env_def failed_log_def match_at_def greedy_group_def
      url_prefix_def newline_def)




text \<open>
  C8. \<^verbatim>\<open>get_service_key\<close> always returns normally. Account creation and the editor-role
  binding are attempted in every run; the key file is minted only when account creation
  has succeeded, since the two commands share one \<^verbatim>\<open>try\<close> block. A failure of account
  creation or of key minting is logged by the first handler, a failure of the role
  binding by the second.
\<close>

theorem get_service_key_attempts:
  "fst (get_service_key env project_id w) = Return ()
   \<and> map_option commands (events_since w (Some (get_service_key env project_id w)))
     = Some (if run_status env create_account
             then [create_account, create_key project_id, add_editor_role project_id]
             else [create_account, add_editor_role project_id])
   \<and> (map_option (\<lambda>es. Print [JStr ''Service account already exists or unable to create service account. Continuing...''] \<in> set es)
        (events_since w (Some (get_service_key env project_id w)))
      = Some (\<not> (run_status env create_account \<and> run_status env (create_key project_id))))
   \<and> (map_option (\<lambda>es. Print [JStr ''Failed to add editor roles to service account. Continuing...''] \<in> set es)
        (events_since w (Some (get_service_key env project_id w)))
      = Some (\<not> run_status env (add_editor_role project_id)))"
  by (simp add: get_service_key_def and_then_def except_CalledProcessError_def run_def
      events_since_def)

text \<open>
  With an account that exists already the key command would succeed, but it is never
  run.
\<close>

theorem key_not_minted_after_failed_creation:
  "run_status existing_account_env (create_key ''my-project'')
   \<and> create_key ''my-project''
       \<notin> set (commands (trace (snd (get_service_key existing_account_env ''my-project''
                                       (initial_world [])))))"
  by (simp add: get_service_key_def and_then_def except_CalledProcessError_def run_def
      existing_account_env_def initial_world_def emit_def print_def
      create_key_def create_account_def add_editor_role_def)

text \<open>
  C9. When the describe command writes nothing to standard error, \<^verbatim>\<open>set_region\<close> returns
  after it and issues no command. Every command the step issues is an app creation, is
  issued only after error output of the describe command, and names a region of the
  listed ones. When the describe command has written error output, the table parses and
  standard input holds a listed region after some entries that are not listed, the step
  prompts once for each of those entries and once more, and then issues the app creation
  for that region. A run of the step that returns normally has issued a command exactly
  when the describe command wrote error output.
\<close>

theorem set_region_creates_app:
  "(snd (popen_output env ''gcloud app describe'') = []
      \<longrightarrow> set_region env w = (Return (), emit (Popen ''gcloud app describe'' None) w)
        \<and> issued w (set_region env w) = [])
   \<and> (\<forall>argv \<in> set (issued w (set_region env w)).
         snd (popen_output env ''gcloud app describe'') \<noteq> []
         \<and> (\<exists>regions r.
               regions_of (fst (popen_output env ''gcloud app regions list'')) = Inr regions
               \<and> r \<in> set regions \<and> argv = app_create r))
   \<and> (snd (popen_output env ''gcloud app describe'') \<noteq> []
       \<and> regions_of (fst (popen_output env ''gcloud app regions list'')) = Inr regions
       \<and> stdin w = skipped @ r # rest
       \<and> (\<forall>s\<in>set skipped. s \<notin> set regions) \<and> r \<in> set regions
      \<longrightarrow> events_since w (Some (set_region env w))
           = Some ([Popen ''gcloud app describe'' None,
                    Popen ''gcloud app regions list'' None,
                    Print [JStr (newline # ''Regions:'')],
                    Print [JStr (join [newline] regions)]]
                   @ replicate (Suc (length skipped))
                       (Input ''Choose a region for the App Engine project: '')
                   @ [Run (app_create r)]))
   \<and> (fst (set_region env w) = Return ()
      \<longrightarrow> (issued w (set_region env w) \<noteq> []
           \<longleftrightarrow> snd (popen_output env ''gcloud app describe'') \<noteq> []))"
proof (intro conjI impI ballI)
  assume "snd (popen_output env ''gcloud app describe'') = []"
  then show "set_region env w = (Return (), emit (Popen ''gcloud app describe'' None) w)"
    and "issued w (set_region env w) = []"
    by (simp_all add: set_region_no_error)
next
  fix argv assume "argv \<in> set (issued w (set_region env w))"
  with set_region_issued[of w env]
  show "snd (popen_output env ''gcloud app describe'') \<noteq> []"
    and "\<exists>regions r.
               regions_of (fst (popen_output env ''gcloud app regions list'')) = Inr regions
               \<and> r \<in> set regions \<and> argv = app_create r"
    by auto
next
  assume "snd (popen_output env ''gcloud app describe'') \<noteq> []
       \<and> regions_of (fst (popen_output env ''gcloud app regions list'')) = Inr regions
       \<and> stdin w = skipped @ r # rest
       \<and> (\<forall>s\<in>set skipped. s \<notin> set regions) \<and> r \<in> set regions"
  then show "events_since w (Some (set_region env w))
           = Some ([Popen ''gcloud app describe'' None,
                    Popen ''gcloud app regions list'' None,
                    Print [JStr (newline # ''Regions:'')],
                    Print [JStr (join [newline] regions)]]
                   @ replicate (Suc (length skipped))
                       (Input ''Choose a region for the App Engine project: '')
                   @ [Run (app_create r)])"
    using set_region_chosen by blast
next
  assume ret: "fst (set_region env w) = Return ()"
  show "issued w (set_region env w) \<noteq> []
           \<longleftrightarrow> snd (popen_output env ''gcloud app describe'') \<noteq> []"
    using set_region_returned[OF ret] set_region_no_error[of env w]
    by (cases "snd (popen_output env ''gcloud app describe'') = []") auto
qed

theorem set_region_creates_app_witness:
  "events_since (initial_world [''mars'', ''europe-west'', ''unused''])
     (Some (set_region (region_env no_app_message region_table)
              (initial_world [''mars'', ''europe-west'', ''unused''])))
     = Some [Popen ''gcloud app describe'' None,
             Popen ''gcloud app regions list'' None,
             Print [JStr (newline # ''Regions:'')],
             Print [JStr (''us-central'' @ newline # ''europe-west'')],
             Input ''Choose a region for the App Engine project: '',
             Input ''Choose a region for the App Engine project: '',
             Run [''gcloud'', ''app'', ''create'', ''--region=europe-west'']]
   \<and> issued (initial_world [''europe-west''])
       (set_region (region_env [] region_table) (initial_world [''europe-west''])) = []"
proof -
  have a: "snd (popen_output (region_env no_app_message region_table) ''gcloud app describe'')
             \<noteq> []"
    by (simp add: region_env_def no_app_message_def)
  have b: "regions_of (fst (popen_output (region_env no_app_message region_table)
                              ''gcloud app regions list''))
             = Inr [''us-central'', ''europe-west'']"
    by (simp add: region_env_def region_table_def regions_of_def split_ws_def isspace_def
        newline_def)
  have c: "stdin (initial_world [''mars'', ''europe-west'', ''unused''])
             = [''mars''] @ ''europe-west'' # [''unused'']"
    by (simp add: initial_world_def)
  have d: "snd (popen_output (region_env [] region_table) ''gcloud app describe'') = []"
    by (simp add: region_env_def)
  show ?thesis
    using set_region_creates_app
      [of "region_env no_app_message region_table"
          "initial_world [''mars'', ''europe-west'', ''unused'']"
          "[''us-central'', ''europe-west'']" "[''mars'']" "''europe-west''" "[''unused'']"]
      set_region_creates_app
      [of "region_env [] region_table" "initial_world [''europe-west'']"]
      a b c d
    by (simp add: app_create_def)
qed

text \<open>
  Error output of the describe command alone does not bring the app creation about: with
  an empty listing no entry is ever accepted, and the prompt loop ends only with the end
  of standard input.
\<close>

theorem no_app_without_listed_region:
  "snd (popen_output no_table_env ''gcloud app describe'') \<noteq> []
   \<and> fst (set_region no_table_env (initial_world [''us-central''])) = Raise EOFError
   \<and> issued (initial_world [''us-central''])
       (set_region no_table_env (initial_world [''us-central''])) = []"
proof -
  have a: "snd (popen_output no_table_env ''gcloud app describe'') \<noteq> []"
    by (simp add: no_table_env_def region_env_def no_app_message_def)
  have b: "regions_of (fst (popen_output no_table_env ''gcloud app regions list'')) = Inr []"
    by (simp add: no_table_env_def region_env_def regions_of_def)
  show ?thesis
    unfolding set_region_prompting[OF a b]
    using a
    by (simp add: input_while_eof and_then_def issued_def initial_world_def print_def emit_def)
qed

text \<open>
  C10. When the body of the answer to the add-database request holds, under \<open>error\<close>, an
  object whose \<open>code\<close> is not 409, and has no \<open>name\<close> key, \<^verbatim>\<open>initialize_firebase\<close>
  returns normally right after the POST: no message, no polling call, no sentinel record
  and no exception.
\<close>

theorem other_error_returns_silently:
  assumes "map_of (post_json env (add_firebase_uri project_id)) ''error'' = Some (JObj err)"
      and "map_of err ''code'' = Some code"
      and "code \<noteq> JInt 409"
      and "map_of (post_json env (add_firebase_uri project_id)) ''name'' = None"
  shows "outcome (initialize_firebase env project_id w) = Some (Return ())
       \<and> events_since w (initialize_firebase env project_id w)
           = Some [Print [JStr ''Initializing Firebase...''],
                   Certificate credentials_path, GetAccessToken,
                   HttpPost (add_firebase_uri project_id)
                     [(''Authorization'', ''Bearer '' @ access_token env)]]
       \<and> map_option (filter is_poll) (events_since w (initialize_firebase env project_id w))
           = Some []
       \<and> map_option (filter is_sentinel_write)
            (events_since w (initialize_firebase env project_id w)) = Some []"
  using assms
  by (simp add: initialize_firebase_def get_access_token_def error_code_is_409_def Let_def
      events_since_def outcome_def)

theorem other_error_returns_silently_witness:
  "outcome (initialize_firebase (mock_env denied_answer slow_operation) ''my-project''
              (initial_world [])) = Some (Return ())
   \<and> events_since (initial_world [])
        (initialize_firebase (mock_env denied_answer slow_operation) ''my-project''
           (initial_world []))
      = Some [Print [JStr ''Initializing Firebase...''],
              Certificate credentials_path, GetAccessToken,
              HttpPost (add_firebase_uri ''my-project'') [(''Authorization'', ''Bearer token'')]]"
  using other_error_returns_silently
    [of "mock_env denied_answer slow_operation" "''my-project''"
        "[(''code'', JInt 403), (''status'', JStr ''PERMISSION_DENIED'')]" "JInt 403"
        "initial_world []"]
  by (simp add: mock_env_def denied_answer_def)

end
